theory Spec2Isabelle
  imports Main "HOL-Library.Sublist"
begin

section \<open>Python strings\<close>

text \<open>
  A Python \<open>str\<close> is a sequence of Unicode code points; \<open>len\<close>, \<open>find\<close> and
  slicing count code points. A code point is a natural number here, a string a list of them.
\<close>

type_synonym pystr = "nat list"

definition ascii :: "string \<Rightarrow> pystr" where
  "ascii s = map of_char s"

text \<open>
  \<open>str.lower()\<close> maps the string code point by code point. On ASCII it turns \<open>A..Z\<close>
  into \<open>a..z\<close>. Exactly one code point has a lowercase form that is longer than one code
  point: U+0130 (capital I with dot above, decimal 304) becomes \<open>i\<close> followed by U+0307
  (decimal 775). U+212A (Kelvin sign, decimal 8490) becomes \<open>k\<close>. Every other cased
  letter outside ASCII becomes one code point outside ASCII; that part of the Unicode table is
  not written out and those code points are left as they are, which changes neither a position
  nor the place of an ASCII letter in the result.
\<close>

definition lower_cp :: "nat \<Rightarrow> pystr" where
  "lower_cp c =
     (if 65 \<le> c \<and> c \<le> 90 then [c + 32]
      else if c = 304 then [105, 775]
      else if c = 8490 then [107]
      else [c])"

definition py_lower :: "pystr \<Rightarrow> pystr" where
  "py_lower s = concat (map lower_cp s)"

text \<open>
  \<open>s.find(sub, start)\<close>: the lowest index \<open>i \<ge> start\<close> at which \<open>sub\<close> begins in
  \<open>s\<close>, or \<open>-1\<close>. A negative \<open>start\<close> counts from the end and is clamped to \<open>0\<close>.
  \<open>find_aux sub s i\<close> scans \<open>s\<close>, whose first element has index \<open>i\<close>.
\<close>

fun find_aux :: "pystr \<Rightarrow> pystr \<Rightarrow> nat \<Rightarrow> int" where
  "find_aux sub [] i = (if sub = [] then int i else - 1)"
| "find_aux sub (x # xs) i =
     (if prefix sub (x # xs) then int i else find_aux sub xs (Suc i))"

definition py_find :: "pystr \<Rightarrow> pystr \<Rightarrow> int \<Rightarrow> int" where
  "py_find s sub start =
     (let n = int (length s);
          k = (if start < 0 then max 0 (n + start) else start)
      in if n < k then - 1 else find_aux sub (drop (nat k) s) (nat k))"

text \<open>
  \<open>s[a:b]\<close>: a negative bound counts from the end, both bounds are clamped to
  \<open>0..len(s)\<close>, and an empty range gives the empty string. Slicing never raises.
\<close>

definition slice_bound :: "nat \<Rightarrow> int \<Rightarrow> nat" where
  "slice_bound n i = (if i < 0 then nat (max 0 (int n + i)) else min n (nat i))"

definition py_slice :: "pystr \<Rightarrow> int \<Rightarrow> int \<Rightarrow> pystr" where
  "py_slice s a b =
     (let lo = slice_bound (length s) a; hi = slice_bound (length s) b
      in take (hi - lo) (drop lo s))"

text \<open>
  \<open>str.strip()\<close> removes the leading and trailing code points for which \<open>str.isspace\<close>
  holds.
\<close>

definition is_space :: "nat \<Rightarrow> bool" where
  "is_space c \<longleftrightarrow>
     (9 \<le> c \<and> c \<le> 13) \<or> (28 \<le> c \<and> c \<le> 32) \<or> c = 133 \<or> c = 160 \<or> c = 5760 \<or>
     (8192 \<le> c \<and> c \<le> 8202) \<or> c = 8232 \<or> c = 8233 \<or> c = 8239 \<or> c = 8287 \<or> c = 12288"

definition py_strip :: "pystr \<Rightarrow> pystr" where
  "py_strip s = rev (dropWhile is_space (rev (dropWhile is_space s)))"

section \<open>The abstract locator of \<open>upload_paper\<close>\<close>

datatype exn_class =
  IndexError | TypeError | AttributeError | ValueError | JSONDecodeError | OSError
  | FileDataError | SDKError

datatype py_error = PyErr (err_class: exn_class) (err_msg: pystr)

definition sentinel :: pystr where
  "sentinel = ascii ''Could not automatically find abstract.''"

definition start_marker :: pystr where
  "start_marker = ascii ''abstract''"

definition end_marker :: pystr where
  "end_marker = ascii ''introduction''"

definition start_index :: "pystr \<Rightarrow> int" where
  "start_index full_text = py_find (py_lower full_text) start_marker 0"

definition end_index :: "pystr \<Rightarrow> int" where
  "end_index full_text = py_find (py_lower full_text) end_marker (start_index full_text)"

text \<open>
  The body of the inner \<open>try\<close> (lines 55 to 62): its value is the string assigned to
  \<open>raw_abstract\<close>, or the exception that leaves the body.
\<close>

definition abstract_try :: "pystr \<Rightarrow> py_error + pystr" where
  "abstract_try full_text =
     (if start_index full_text \<noteq> - 1 \<and> end_index full_text \<noteq> - 1 then
        Inr (py_strip (py_slice full_text
               (start_index full_text + int (length start_marker)) (end_index full_text)))
      else if start_index full_text \<noteq> - 1 then
        Inr (py_strip (py_slice full_text
               (start_index full_text + int (length start_marker))
               (start_index full_text + 3000)))
      else Inr sentinel)"

text \<open>The \<open>except Exception\<close> of line 63 replaces any exception by \<open>full_text[:3000]\<close>.\<close>

definition abstract_locator :: "pystr \<Rightarrow> pystr" where
  "abstract_locator full_text =
     (case abstract_try full_text of
        Inl e \<Rightarrow> py_slice full_text 0 3000
      | Inr r \<Rightarrow> r)"

section \<open>JSON values and the remote model capability\<close>

text \<open>
  What \<open>json.loads\<close> returns. An object is a Python \<open>dict\<close>, kept as an association list
  with \<open>map_of\<close> as lookup. The parser itself is library code and is a parameter of the
  functions below: it gives the parsed value or the exception it raises.
\<close>

datatype json =
  JNull | JBool bool | JInt int | JFloat pystr | JStr pystr
  | JArr "json list" | JObj "(pystr \<times> json) list"

type_synonym json_loads = "pystr \<Rightarrow> py_error + json"

text \<open>
  A request to \<open>client.chat.complete\<close>. The prompt texts are fixed skeletons into which the
  parameters are substituted, so a prompt is kept as the skeleton it uses and its parameters.
  \<open>json_mode\<close> is the \<open>response_format\<close> argument \<open>json_object\<close>.
\<close>

datatype prompt =
  SummaryPrompt pystr | QuizPrompt int pystr pystr | FlashcardPrompt int pystr

record request =
  json_mode :: bool
  prompt :: prompt

text \<open>
  The reply: the message content of each choice, which may be \<open>None\<close>. The remote service is
  a function from the request to a reply or to the exception the call raises.
\<close>

datatype chat_response = ChatResponse (choices: "pystr option list")

type_synonym remote = "request \<Rightarrow> py_error + chat_response"

text \<open>
  Lines 14 to 19: \<open>client\<close> stays \<open>None\<close> when the key is unset or empty, and is the
  configured service otherwise.
\<close>

definition init_client :: "pystr option \<Rightarrow> remote \<Rightarrow> remote option" where
  "init_client api_key service =
     (case api_key of
        None \<Rightarrow> None
      | Some k \<Rightarrow> if k = [] then None else Some service)"

definition and_then :: "'e + 'a \<Rightarrow> ('a \<Rightarrow> 'e + 'b) \<Rightarrow> 'e + 'b" where
  "and_then r f = (case r of Inl e \<Rightarrow> Inl e | Inr x \<Rightarrow> f x)"

text \<open>\<open>chat_response.choices[0].message.content\<close>: indexing an empty list raises.\<close>

definition first_content :: "chat_response \<Rightarrow> py_error + pystr option" where
  "first_content r =
     (case choices r of
        [] \<Rightarrow> Inl (PyErr IndexError (ascii ''list index out of range''))
      | c # cs \<Rightarrow> Inr c)"

text \<open>\<open>json.loads(content_str)\<close>: \<open>None\<close> is not a string and raises \<open>TypeError\<close>.\<close>

definition loads_content :: "json_loads \<Rightarrow> pystr option \<Rightarrow> py_error + json" where
  "loads_content loads content_str =
     (case content_str of
        None \<Rightarrow> Inl (PyErr TypeError (ascii ''the JSON object must be str, bytes or bytearray''))
      | Some s \<Rightarrow> loads s)"

text \<open>\<open>parsed_json.get(key, default)\<close>: only a \<open>dict\<close> has the method.\<close>

definition dict_get :: "json \<Rightarrow> pystr \<Rightarrow> json \<Rightarrow> py_error + json" where
  "dict_get j key dflt =
     (case j of
        JObj kv \<Rightarrow> Inr (case map_of kv key of None \<Rightarrow> dflt | Some v \<Rightarrow> v)
      | _ \<Rightarrow> Inl (PyErr AttributeError (ascii ''object has no attribute get'')))"

section \<open>Quiz and flashcard generation\<close>

text \<open>
  Lines 137 to 145 of \<open>generate_quiz_from_text\<close> and lines 213 to 221 of
  \<open>generate_flashcards_from_text\<close>, which differ in the key only: from the reply to the list
  that is returned, or to the exception that reaches the \<open>except\<close> clause.
\<close>

definition parse_response :: "json_loads \<Rightarrow> pystr \<Rightarrow> chat_response \<Rightarrow> py_error + json list" where
  "parse_response loads key chat_response =
     and_then (first_content chat_response) (\<lambda>content_str.
     and_then (loads_content loads content_str) (\<lambda>parsed_json.
     and_then (dict_get parsed_json key (JArr [])) (\<lambda>q_list.
       (case q_list of JArr xs \<Rightarrow> Inr xs | _ \<Rightarrow> Inr []))))"

text \<open>
  The generators return the list and, beside it, the requests that were sent to the remote
  service, in order.
\<close>

definition generate_quiz_from_text ::
  "remote option \<Rightarrow> json_loads \<Rightarrow> pystr \<Rightarrow> int \<Rightarrow> pystr \<Rightarrow> json list \<times> request list" where
  "generate_quiz_from_text client loads text num_questions difficulty =
     (case client of
        None \<Rightarrow> ([], [])
      | Some complete \<Rightarrow>
          (let req = \<lparr>json_mode = True, prompt = QuizPrompt num_questions difficulty text\<rparr>
           in (case and_then (complete req) (parse_response loads (ascii ''questions'')) of
                 Inl e \<Rightarrow> []
               | Inr q_list \<Rightarrow> q_list,
               [req])))"

definition generate_flashcards_from_text ::
  "remote option \<Rightarrow> json_loads \<Rightarrow> pystr \<Rightarrow> int \<Rightarrow> json list \<times> request list" where
  "generate_flashcards_from_text client loads text num_cards =
     (case client of
        None \<Rightarrow> ([], [])
      | Some complete \<Rightarrow>
          (let req = \<lparr>json_mode = True, prompt = FlashcardPrompt num_cards text\<rparr>
           in (case and_then (complete req) (parse_response loads (ascii ''flashcards'')) of
                 Inl e \<Rightarrow> []
               | Inr card_list \<Rightarrow> card_list,
               [req])))"

text \<open>
  The template context of the two list views: the template, the entities (under the key
  \<open>questions\<close> or \<open>flashcards\<close>) and the error message, \<open>None\<close> when there is none.
\<close>

record list_view =
  template :: pystr
  entities :: "json list"
  error :: "pystr option"

definition quiz_error_message :: pystr where
  "quiz_error_message = ascii
     ''Failed to generate quiz from the model. It might be too busy or the abstract was too complex. Please try again.''"

definition flashcards_error_message :: pystr where
  "flashcards_error_message = ascii
     ''Failed to generate flashcards from the model. It might be too busy or the abstract was too complex. Please try again.''"

definition get_quiz_questions ::
  "remote option \<Rightarrow> json_loads \<Rightarrow> pystr \<Rightarrow> pystr \<Rightarrow> int \<Rightarrow> list_view \<times> request list" where
  "get_quiz_questions client loads abstract difficulty num_questions =
     (case generate_quiz_from_text client loads abstract num_questions difficulty of
        (questions, calls) \<Rightarrow>
          (if questions = [] then
             \<lparr>template = ascii ''quiz.html'', entities = [], error = Some quiz_error_message\<rparr>
           else
             \<lparr>template = ascii ''quiz.html'', entities = questions, error = None\<rparr>,
           calls))"

definition get_flashcards ::
  "remote option \<Rightarrow> json_loads \<Rightarrow> pystr \<Rightarrow> int \<Rightarrow> list_view \<times> request list" where
  "get_flashcards client loads abstract num_cards =
     (case generate_flashcards_from_text client loads abstract num_cards of
        (flashcards, calls) \<Rightarrow>
          (if flashcards = [] then
             \<lparr>template = ascii ''flashcards.html'', entities = [],
              error = Some flashcards_error_message\<rparr>
           else
             \<lparr>template = ascii ''flashcards.html'', entities = flashcards, error = None\<rparr>,
           calls))"


section \<open>The upload handler\<close>

text \<open>
  The files of the working directory: a map from a path to the bytes of the regular file
  there. Removing an existing regular file succeeds.
\<close>

type_synonym fs = "pystr \<rightharpoonup> nat list"

record results_view =
  filename :: "pystr option"
  summary :: "pystr option"
  raw_abstract :: pystr

datatype upload_response = ResultsPage results_view | RedirectHome

text \<open>Line 39: an f-string renders a missing file name as \<open>None\<close>.\<close>

definition temp_path :: "pystr option \<Rightarrow> pystr" where
  "temp_path name =
     ascii ''temp_'' @ (case name of None \<Rightarrow> ascii ''None'' | Some n \<Rightarrow> n)"

definition not_configured_message :: pystr where
  "not_configured_message =
     ascii ''Mistral API client not configured. Please set MISTRAL_API_KEY in .env''"

text \<open>Lines 66 to 83: the summary and the requests sent for it.\<close>

definition summarize :: "remote option \<Rightarrow> pystr \<Rightarrow> pystr option \<times> request list" where
  "summarize client abstract =
     (case client of
        None \<Rightarrow> (Some not_configured_message, [])
      | Some complete \<Rightarrow>
          (let req = \<lparr>json_mode = False, prompt = SummaryPrompt abstract\<rparr>
           in (case and_then (complete req) first_content of
                 Inl e \<Rightarrow> Some (ascii ''Mistral API error: '' @ err_msg e)
               | Inr content \<Rightarrow> content,
               [req])))"

text \<open>
  Lines 41 to 91, the body of the outer \<open>try\<close>. \<open>writable\<close> says whether
  \<open>open(path, 'wb')\<close> succeeds, \<open>content\<close> is what \<open>paper.read()\<close> gives or raises, and
  \<open>extract_text\<close> is the PDF library: the text of each page of the file, or the exception raised
  while opening or reading it. The result is the response or the exception that leaves the
  body, the files at that moment, and the requests sent.
\<close>

definition upload_try ::
  "remote option \<Rightarrow> (pystr \<Rightarrow> bool) \<Rightarrow> (nat list \<Rightarrow> py_error + pystr list) \<Rightarrow> fs \<Rightarrow>
   pystr option \<Rightarrow> py_error + nat list \<Rightarrow> (py_error + upload_response) \<times> fs \<times> request list" where
  "upload_try client writable extract_text files name content =
     (let temp_pdf_path = temp_path name in
      if \<not> writable temp_pdf_path then
        (Inl (PyErr OSError (ascii ''cannot open file'')), files, [])
      else
        (case content of
           Inl e \<Rightarrow> (Inl e, files(temp_pdf_path \<mapsto> []), [])
         | Inr bytes \<Rightarrow>
             (let files' = files(temp_pdf_path \<mapsto> bytes) in
              case extract_text bytes of
                Inl e \<Rightarrow> (Inl e, files', [])
              | Inr pages \<Rightarrow>
                  (let full_text = concat pages;
                       abstract = abstract_locator full_text
                   in case summarize client abstract of
                        (s, calls) \<Rightarrow>
                          (Inr (ResultsPage
                                  \<lparr>filename = name, summary = s, raw_abstract = abstract\<rparr>),
                           files', calls)))))"

text \<open>
  The whole handler: the \<open>except\<close> of line 93 turns any exception into the redirect, and
  the \<open>finally\<close> of line 96 removes the temporary file when it exists.
\<close>

definition upload_paper ::
  "remote option \<Rightarrow> (pystr \<Rightarrow> bool) \<Rightarrow> (nat list \<Rightarrow> py_error + pystr list) \<Rightarrow> fs \<Rightarrow>
   pystr option \<Rightarrow> py_error + nat list \<Rightarrow> upload_response \<times> fs \<times> request list" where
  "upload_paper client writable extract_text files name content =
     (case upload_try client writable extract_text files name content of
        (r, files', calls) \<Rightarrow>
          (case r of Inl e \<Rightarrow> RedirectHome | Inr response \<Rightarrow> response,
           if files' (temp_path name) \<noteq> None then files'((temp_path name) := None) else files',
           calls))"

section \<open>Properties of the string operations\<close>

lemma find_aux_absent: "find_aux sub s i = - 1 \<longleftrightarrow> \<not> sublist sub s"
  by (induction s arbitrary: i) (auto simp: sublist_Cons_right)












section \<open>Properties of the abstract locator\<close>

lemma start_index_absent:
  "start_index t = - 1 \<longleftrightarrow> \<not> sublist start_marker (py_lower t)"
  by (simp add: start_index_def py_find_def find_aux_absent)


lemma locator_no_start: "start_index t = - 1 \<Longrightarrow> abstract_locator t = sentinel"
  by (simp add: abstract_locator_def abstract_try_def)

text \<open>
  C8. A text whose lowercase form does not contain \<open>abstract\<close> anywhere gives the fixed
  sentinel string \<open>Could not automatically find abstract.\<close>
\<close>

theorem no_abstract_marker_gives_sentinel:
  "\<not> sublist start_marker (py_lower t) \<Longrightarrow> abstract_locator t = sentinel"
  by (simp add: locator_no_start start_index_absent)

theorem no_abstract_marker_gives_sentinel_witness:
  "\<not> sublist start_marker (py_lower (ascii ''Some Introduction only'')) \<and>
   abstract_locator (ascii ''Some Introduction only'') = sentinel"
proof -
  have h: "\<not> sublist start_marker (py_lower (ascii ''Some Introduction only''))"
    by (simp add: start_marker_def ascii_def py_lower_def lower_cp_def sublist_Cons_right)
  from h no_abstract_marker_gives_sentinel [OF h] show ?thesis by blast
qed

lemmas locator_eval =
  abstract_locator_def abstract_try_def start_index_def end_index_def
  py_find_def py_lower_def lower_cp_def ascii_def start_marker_def end_marker_def
  py_slice_def slice_bound_def py_strip_def is_space_def

text \<open>
  C1, at a text the code mishandles. The indices are found in the lowercased copy and used
  on the original text (lines 57 to 60). U+0130 lowercases to two code points, so in the text
  made of U+0130 and \<open> abstract X introduction\<close> every later index is one too high: the
  markers stand at 2 to 10 and at 13 to 25, the text between them is \<open>X\<close>, and the locator
  returns \<open>X i\<close>.
\<close>

theorem dotted_capital_I_shifts_between_markers:
  "sublist start_marker (py_lower ([304] @ ascii '' abstract X introduction'')) \<and>
   py_slice ([304] @ ascii '' abstract X introduction'') 2 10 = start_marker \<and>
   py_slice ([304] @ ascii '' abstract X introduction'') 13 25 = end_marker \<and>
   py_strip (py_slice ([304] @ ascii '' abstract X introduction'') 10 13) = ascii ''X'' \<and>
   abstract_locator ([304] @ ascii '' abstract X introduction'') = ascii ''X i''"
  by (simp add: locator_eval sublist_Cons_right)

text \<open>
  C9, at a text the code mishandles. On the text made of U+0130 and
  \<open> abstract hello introduction rest\<close> the body of the inner \<open>try\<close> ends with a value,
  not with an exception, but the value \<open>hello i\<close> is none of the three results: it is not
  the sentinel, not the text between the markers (\<open>hello\<close>, the markers standing at 2 to 10
  and at 17 to 29) and not the text after the start marker (\<open>hello introduction rest\<close>).
\<close>

theorem dotted_capital_I_result_outside_three_cases:
  "abstract_try ([304] @ ascii '' abstract hello introduction rest'') =
     Inr (ascii ''hello i'') \<and>
   abstract_locator ([304] @ ascii '' abstract hello introduction rest'') = ascii ''hello i'' \<and>
   py_slice ([304] @ ascii '' abstract hello introduction rest'') 2 10 = start_marker \<and>
   py_slice ([304] @ ascii '' abstract hello introduction rest'') 17 29 = end_marker \<and>
   sentinel \<noteq> ascii ''hello i'' \<and>
   py_strip (py_slice ([304] @ ascii '' abstract hello introduction rest'') 10 17) =
     ascii ''hello'' \<and>
   py_strip (py_slice ([304] @ ascii '' abstract hello introduction rest'') 10 3002) =
     ascii ''hello introduction rest''"
  by (simp add: locator_eval sentinel_def)








section \<open>Properties of quiz and flashcard generation\<close>

lemma parse_response_loads_fails:
  "loads s = Inl e \<Longrightarrow> parse_response loads key (ChatResponse (Some s # cs)) = Inl e"
  by (simp add: parse_response_def and_then_def first_content_def loads_content_def)

lemma parse_response_object:
  "loads s = Inr (JObj kv) \<Longrightarrow>
   parse_response loads key (ChatResponse (Some s # cs)) =
     Inr (case map_of kv key of Some (JArr xs) \<Rightarrow> xs | _ \<Rightarrow> [])"
  by (simp add: parse_response_def and_then_def first_content_def loads_content_def dict_get_def
      split: option.splits json.splits)

lemma parse_response_key_absent:
  "loads s = Inr (JObj kv) \<Longrightarrow> map_of kv key = None \<Longrightarrow>
   parse_response loads key (ChatResponse (Some s # cs)) = Inr []"
  by (simp add: parse_response_object)

lemma parse_response_not_a_list:
  "loads s = Inr (JObj kv) \<Longrightarrow> map_of kv key = Some v \<Longrightarrow> \<forall>xs. v \<noteq> JArr xs \<Longrightarrow>
   parse_response loads key (ChatResponse (Some s # cs)) = Inr []"
  by (cases v) (simp_all add: parse_response_object)

lemma parse_response_list:
  "loads s = Inr (JObj kv) \<Longrightarrow> map_of kv key = Some (JArr xs) \<Longrightarrow>
   parse_response loads key (ChatResponse (Some s # cs)) = Inr xs"
  by (simp add: parse_response_object)

lemma parse_response_not_object:
  "loads s = Inr j \<Longrightarrow> \<forall>kv. j \<noteq> JObj kv \<Longrightarrow>
   \<exists>e. parse_response loads key (ChatResponse (Some s # cs)) = Inl e"
  by (cases j)
    (simp_all add: parse_response_def and_then_def first_content_def loads_content_def
      dict_get_def)

lemma parse_response_mismatch:
  assumes "(\<exists>e. loads s = Inl e) \<or>
     (\<exists>j. loads s = Inr j \<and> (\<forall>kv. j \<noteq> JObj kv)) \<or>
     (\<exists>kv. loads s = Inr (JObj kv) \<and>
        (map_of kv key = None \<or> (\<exists>v. map_of kv key = Some v \<and> (\<forall>xs. v \<noteq> JArr xs))))"
  shows "(case parse_response loads key (ChatResponse (Some s # cs)) of
            Inl e \<Rightarrow> [] | Inr q \<Rightarrow> q) = []"
proof -
  consider (fails) e where "loads s = Inl e"
    | (other) j where "loads s = Inr j" "\<forall>kv. j \<noteq> JObj kv"
    | (absent) kv where "loads s = Inr (JObj kv)" "map_of kv key = None"
    | (nolist) kv v where "loads s = Inr (JObj kv)" "map_of kv key = Some v"
        "\<forall>xs. v \<noteq> JArr xs"
    using assms by blast
  then show ?thesis
  proof cases
    case fails
    then show ?thesis by (simp add: parse_response_loads_fails)
  next
    case other
    from other parse_response_not_object [of loads s j key cs] show ?thesis by auto
  next
    case absent
    then show ?thesis by (simp add: parse_response_key_absent)
  next
    case nolist
    then show ?thesis by (simp add: parse_response_not_a_list)
  qed
qed

lemma quiz_of_reply:
  "complete \<lparr>json_mode = True, prompt = QuizPrompt n d t\<rparr> = Inr r \<Longrightarrow>
   generate_quiz_from_text (Some complete) loads t n d =
     (case parse_response loads (ascii ''questions'') r of Inl e \<Rightarrow> [] | Inr q \<Rightarrow> q,
      [\<lparr>json_mode = True, prompt = QuizPrompt n d t\<rparr>])"
  by (simp add: generate_quiz_from_text_def and_then_def Let_def)

lemma flashcards_of_reply:
  "complete \<lparr>json_mode = True, prompt = FlashcardPrompt m t\<rparr> = Inr r \<Longrightarrow>
   generate_flashcards_from_text (Some complete) loads t m =
     (case parse_response loads (ascii ''flashcards'') r of Inl e \<Rightarrow> [] | Inr q \<Rightarrow> q,
      [\<lparr>json_mode = True, prompt = FlashcardPrompt m t\<rparr>])"
  by (simp add: generate_flashcards_from_text_def and_then_def Let_def)

lemma quiz_view:
  "fst (get_quiz_questions client loads a d n) =
     (if fst (generate_quiz_from_text client loads a n d) = [] then
        \<lparr>template = ascii ''quiz.html'', entities = [], error = Some quiz_error_message\<rparr>
      else
        \<lparr>template = ascii ''quiz.html'',
         entities = fst (generate_quiz_from_text client loads a n d), error = None\<rparr>)"
  by (simp add: get_quiz_questions_def case_prod_beta)

lemma flashcards_view:
  "fst (get_flashcards client loads a m) =
     (if fst (generate_flashcards_from_text client loads a m) = [] then
        \<lparr>template = ascii ''flashcards.html'', entities = [],
         error = Some flashcards_error_message\<rparr>
      else
        \<lparr>template = ascii ''flashcards.html'',
         entities = fst (generate_flashcards_from_text client loads a m), error = None\<rparr>)"
  by (simp add: get_flashcards_def case_prod_beta)

text \<open>
  C5. When the remote call returns a reply whose first content is a text, and that text
  fails to parse (the parser's exception is raised inside the generator and stops at its
  \<open>except\<close> clause), or parses to a value that is not an object, or to an object without
  the key, or to an object whose value under the key is not a list, then the generator returns
  the empty list and the handler renders the empty list together with its error message. This
  holds for the quiz with the key \<open>questions\<close> and for the flashcards with the key
  \<open>flashcards\<close>.
\<close>

theorem structural_mismatch_gives_empty:
  "(complete \<lparr>json_mode = True, prompt = QuizPrompt n d t\<rparr> =
      Inr (ChatResponse (Some s # cs)) \<longrightarrow>
    (\<exists>e. loads s = Inl e) \<or>
    (\<exists>j. loads s = Inr j \<and> (\<forall>kv. j \<noteq> JObj kv)) \<or>
    (\<exists>kv. loads s = Inr (JObj kv) \<and>
       (map_of kv (ascii ''questions'') = None \<or>
        (\<exists>v. map_of kv (ascii ''questions'') = Some v \<and> (\<forall>xs. v \<noteq> JArr xs)))) \<longrightarrow>
    generate_quiz_from_text (Some complete) loads t n d =
      ([], [\<lparr>json_mode = True, prompt = QuizPrompt n d t\<rparr>]) \<and>
    fst (get_quiz_questions (Some complete) loads t d n) =
      \<lparr>template = ascii ''quiz.html'', entities = [], error = Some quiz_error_message\<rparr>) \<and>
   (complete \<lparr>json_mode = True, prompt = FlashcardPrompt m t\<rparr> =
      Inr (ChatResponse (Some s # cs)) \<longrightarrow>
    (\<exists>e. loads s = Inl e) \<or>
    (\<exists>j. loads s = Inr j \<and> (\<forall>kv. j \<noteq> JObj kv)) \<or>
    (\<exists>kv. loads s = Inr (JObj kv) \<and>
       (map_of kv (ascii ''flashcards'') = None \<or>
        (\<exists>v. map_of kv (ascii ''flashcards'') = Some v \<and> (\<forall>xs. v \<noteq> JArr xs)))) \<longrightarrow>
    generate_flashcards_from_text (Some complete) loads t m =
      ([], [\<lparr>json_mode = True, prompt = FlashcardPrompt m t\<rparr>]) \<and>
    fst (get_flashcards (Some complete) loads t m) =
      \<lparr>template = ascii ''flashcards.html'', entities = [],
       error = Some flashcards_error_message\<rparr>) \<and>
   (\<forall>e key. loads s = Inl e \<longrightarrow>
      parse_response loads key (ChatResponse (Some s # cs)) = Inl e)"
proof (intro conjI impI allI)
  assume reply: "complete \<lparr>json_mode = True, prompt = QuizPrompt n d t\<rparr> =
      Inr (ChatResponse (Some s # cs))"
    and bad: "(\<exists>e. loads s = Inl e) \<or>
    (\<exists>j. loads s = Inr j \<and> (\<forall>kv. j \<noteq> JObj kv)) \<or>
    (\<exists>kv. loads s = Inr (JObj kv) \<and>
       (map_of kv (ascii ''questions'') = None \<or>
        (\<exists>v. map_of kv (ascii ''questions'') = Some v \<and> (\<forall>xs. v \<noteq> JArr xs))))"
  show q: "generate_quiz_from_text (Some complete) loads t n d =
      ([], [\<lparr>json_mode = True, prompt = QuizPrompt n d t\<rparr>])"
    using bad parse_response_mismatch [of loads s "ascii ''questions''" cs]
    by (simp add: quiz_of_reply
        [where complete = complete and r = "ChatResponse (Some s # cs)", OF reply])
  show "fst (get_quiz_questions (Some complete) loads t d n) =
      \<lparr>template = ascii ''quiz.html'', entities = [], error = Some quiz_error_message\<rparr>"
    using q by (simp add: quiz_view)
next
  assume reply: "complete \<lparr>json_mode = True, prompt = FlashcardPrompt m t\<rparr> =
      Inr (ChatResponse (Some s # cs))"
    and bad: "(\<exists>e. loads s = Inl e) \<or>
    (\<exists>j. loads s = Inr j \<and> (\<forall>kv. j \<noteq> JObj kv)) \<or>
    (\<exists>kv. loads s = Inr (JObj kv) \<and>
       (map_of kv (ascii ''flashcards'') = None \<or>
        (\<exists>v. map_of kv (ascii ''flashcards'') = Some v \<and> (\<forall>xs. v \<noteq> JArr xs))))"
  show f: "generate_flashcards_from_text (Some complete) loads t m =
      ([], [\<lparr>json_mode = True, prompt = FlashcardPrompt m t\<rparr>])"
    using bad parse_response_mismatch [of loads s "ascii ''flashcards''" cs]
    by (simp add: flashcards_of_reply
        [where complete = complete and r = "ChatResponse (Some s # cs)", OF reply])
  show "fst (get_flashcards (Some complete) loads t m) =
      \<lparr>template = ascii ''flashcards.html'', entities = [],
       error = Some flashcards_error_message\<rparr>"
    using f by (simp add: flashcards_view)
next
  fix e key
  assume "loads s = Inl e"
  then show "parse_response loads key (ChatResponse (Some s # cs)) = Inl e"
    by (rule parse_response_loads_fails)
qed

theorem structural_mismatch_gives_empty_witness:
  "fst (get_quiz_questions (Some (\<lambda>req. Inr (ChatResponse [Some (ascii ''not json'')])))
          (\<lambda>s. Inl (PyErr JSONDecodeError (ascii ''Expecting value'')))
          (ascii ''abc'') (ascii ''medium'') 3) =
     \<lparr>template = ascii ''quiz.html'', entities = [], error = Some quiz_error_message\<rparr> \<and>
   fst (get_flashcards (Some (\<lambda>req. Inr (ChatResponse [Some (ascii ''{other: 1}'')])))
          (\<lambda>s. Inr (JObj [(ascii ''other'', JInt 1)]))
          (ascii ''abc'') 5) =
     \<lparr>template = ascii ''flashcards.html'', entities = [],
      error = Some flashcards_error_message\<rparr> \<and>
   fst (generate_quiz_from_text (Some (\<lambda>req. Inr (ChatResponse [Some (ascii ''{questions: 7}'')])))
          (\<lambda>s. Inr (JObj [(ascii ''questions'', JInt 7)]))
          (ascii ''abc'') 3 (ascii ''medium'')) = [] \<and>
   fst (generate_flashcards_from_text (Some (\<lambda>req. Inr (ChatResponse [Some (ascii ''[1, 2]'')])))
          (\<lambda>s. Inr (JArr [JInt 1, JInt 2]))
          (ascii ''abc'') 5) = []"
proof -
  have a: "fst (get_quiz_questions (Some (\<lambda>req. Inr (ChatResponse [Some (ascii ''not json'')])))
          (\<lambda>s. Inl (PyErr JSONDecodeError (ascii ''Expecting value'')))
          (ascii ''abc'') (ascii ''medium'') 3) =
     \<lparr>template = ascii ''quiz.html'', entities = [], error = Some quiz_error_message\<rparr>"
    using structural_mismatch_gives_empty
      [where complete = "\<lambda>req. Inr (ChatResponse [Some (ascii ''not json'')])"
         and loads = "\<lambda>s. Inl (PyErr JSONDecodeError (ascii ''Expecting value''))"
         and s = "ascii ''not json''" and cs = "[]"
         and t = "ascii ''abc''" and d = "ascii ''medium''" and n = "3" and m = "5"]
    by simp
  have b: "fst (get_flashcards (Some (\<lambda>req. Inr (ChatResponse [Some (ascii ''{other: 1}'')])))
          (\<lambda>s. Inr (JObj [(ascii ''other'', JInt 1)]))
          (ascii ''abc'') 5) =
     \<lparr>template = ascii ''flashcards.html'', entities = [],
      error = Some flashcards_error_message\<rparr>"
    using structural_mismatch_gives_empty
      [where complete = "\<lambda>req. Inr (ChatResponse [Some (ascii ''{other: 1}'')])"
         and loads = "\<lambda>s. Inr (JObj [(ascii ''other'', JInt 1)])"
         and s = "ascii ''{other: 1}''" and cs = "[]"
         and t = "ascii ''abc''" and d = "ascii ''medium''" and n = "3" and m = "5"]
    by (simp add: ascii_def)
  have c: "fst (generate_quiz_from_text (Some (\<lambda>req. Inr (ChatResponse [Some (ascii ''{questions: 7}'')])))
          (\<lambda>s. Inr (JObj [(ascii ''questions'', JInt 7)]))
          (ascii ''abc'') 3 (ascii ''medium'')) = []"
    using structural_mismatch_gives_empty
      [where complete = "\<lambda>req. Inr (ChatResponse [Some (ascii ''{questions: 7}'')])"
         and loads = "\<lambda>s. Inr (JObj [(ascii ''questions'', JInt 7)])"
         and s = "ascii ''{questions: 7}''" and cs = "[]"
         and t = "ascii ''abc''" and d = "ascii ''medium''" and n = "3" and m = "5"]
    by (simp add: ascii_def)
  have d: "fst (generate_flashcards_from_text (Some (\<lambda>req. Inr (ChatResponse [Some (ascii ''[1, 2]'')])))
          (\<lambda>s. Inr (JArr [JInt 1, JInt 2]))
          (ascii ''abc'') 5) = []"
    using structural_mismatch_gives_empty
      [where complete = "\<lambda>req. Inr (ChatResponse [Some (ascii ''[1, 2]'')])"
         and loads = "\<lambda>s. Inr (JArr [JInt 1, JInt 2])"
         and s = "ascii ''[1, 2]''" and cs = "[]"
         and t = "ascii ''abc''" and d = "ascii ''medium''" and n = "3" and m = "5"]
    by simp
  from a b c d show ?thesis by blast
qed

text \<open>
  C10. In the view rendered by \<open>get_quiz_questions\<close> and in the one rendered by
  \<open>get_flashcards\<close>, the error message is present exactly when the list of entities is
  empty. In particular, when the remote call succeeds and its content parses to an object
  whose list under the key is empty, the view shows the error message of a failed generation.
\<close>

theorem error_iff_entities_empty:
  "(error (fst (get_quiz_questions client loads a d n)) \<noteq> None \<longleftrightarrow>
      entities (fst (get_quiz_questions client loads a d n)) = []) \<and>
   (error (fst (get_flashcards client loads a m)) \<noteq> None \<longleftrightarrow>
      entities (fst (get_flashcards client loads a m)) = []) \<and>
   (\<forall>complete s cs kv.
      client = Some complete \<longrightarrow>
      complete \<lparr>json_mode = True, prompt = QuizPrompt n d a\<rparr> =
        Inr (ChatResponse (Some s # cs)) \<longrightarrow>
      loads s = Inr (JObj kv) \<longrightarrow>
      map_of kv (ascii ''questions'') = Some (JArr []) \<longrightarrow>
      fst (get_quiz_questions client loads a d n) =
        \<lparr>template = ascii ''quiz.html'', entities = [], error = Some quiz_error_message\<rparr>) \<and>
   (\<forall>complete s cs kv.
      client = Some complete \<longrightarrow>
      complete \<lparr>json_mode = True, prompt = FlashcardPrompt m a\<rparr> =
        Inr (ChatResponse (Some s # cs)) \<longrightarrow>
      loads s = Inr (JObj kv) \<longrightarrow>
      map_of kv (ascii ''flashcards'') = Some (JArr []) \<longrightarrow>
      fst (get_flashcards client loads a m) =
        \<lparr>template = ascii ''flashcards.html'', entities = [],
         error = Some flashcards_error_message\<rparr>)"
proof (intro conjI allI impI)
  show "error (fst (get_quiz_questions client loads a d n)) \<noteq> None \<longleftrightarrow>
      entities (fst (get_quiz_questions client loads a d n)) = []"
    by (simp add: quiz_view)
  show "error (fst (get_flashcards client loads a m)) \<noteq> None \<longleftrightarrow>
      entities (fst (get_flashcards client loads a m)) = []"
    by (simp add: flashcards_view)
next
  fix complete s cs kv
  assume c: "client = Some complete"
    and r: "complete \<lparr>json_mode = True, prompt = QuizPrompt n d a\<rparr> =
        Inr (ChatResponse (Some s # cs))"
    and l: "loads s = Inr (JObj kv)"
    and k: "map_of kv (ascii ''questions'') = Some (JArr [])"
  have "fst (generate_quiz_from_text (Some complete) loads a n d) = []"
    using parse_response_list [where loads = loads and s = s and cs = cs, OF l k]
    by (simp add: quiz_of_reply
        [where complete = complete and r = "ChatResponse (Some s # cs)", OF r])
  then show "fst (get_quiz_questions client loads a d n) =
        \<lparr>template = ascii ''quiz.html'', entities = [], error = Some quiz_error_message\<rparr>"
    using c by (simp add: quiz_view)
next
  fix complete s cs kv
  assume c: "client = Some complete"
    and r: "complete \<lparr>json_mode = True, prompt = FlashcardPrompt m a\<rparr> =
        Inr (ChatResponse (Some s # cs))"
    and l: "loads s = Inr (JObj kv)"
    and k: "map_of kv (ascii ''flashcards'') = Some (JArr [])"
  have "fst (generate_flashcards_from_text (Some complete) loads a m) = []"
    using parse_response_list [where loads = loads and s = s and cs = cs, OF l k]
    by (simp add: flashcards_of_reply
        [where complete = complete and r = "ChatResponse (Some s # cs)", OF r])
  then show "fst (get_flashcards client loads a m) =
        \<lparr>template = ascii ''flashcards.html'', entities = [],
         error = Some flashcards_error_message\<rparr>"
    using c by (simp add: flashcards_view)
qed

theorem error_iff_entities_empty_witness:
  "fst (get_quiz_questions (Some (\<lambda>req. Inr (ChatResponse [Some (ascii ''{questions: []}'')])))
          (\<lambda>s. Inr (JObj [(ascii ''questions'', JArr []), (ascii ''flashcards'', JArr [])]))
          (ascii ''abc'') (ascii ''easy'') 2) =
     \<lparr>template = ascii ''quiz.html'', entities = [], error = Some quiz_error_message\<rparr> \<and>
   fst (get_flashcards (Some (\<lambda>req. Inr (ChatResponse [Some (ascii ''{questions: []}'')])))
          (\<lambda>s. Inr (JObj [(ascii ''questions'', JArr []), (ascii ''flashcards'', JArr [])]))
          (ascii ''abc'') 4) =
     \<lparr>template = ascii ''flashcards.html'', entities = [],
      error = Some flashcards_error_message\<rparr> \<and>
   entities (fst (get_flashcards (Some (\<lambda>req. Inr (ChatResponse [Some (ascii ''{flashcards: [1]}'')])))
          (\<lambda>s. Inr (JObj [(ascii ''flashcards'', JArr [JInt 1])]))
          (ascii ''abc'') 4)) = [JInt 1] \<and>
   error (fst (get_flashcards (Some (\<lambda>req. Inr (ChatResponse [Some (ascii ''{flashcards: [1]}'')])))
          (\<lambda>s. Inr (JObj [(ascii ''flashcards'', JArr [JInt 1])]))
          (ascii ''abc'') 4)) = None"
proof -
  have a: "fst (get_quiz_questions (Some (\<lambda>req. Inr (ChatResponse [Some (ascii ''{questions: []}'')])))
          (\<lambda>s. Inr (JObj [(ascii ''questions'', JArr []), (ascii ''flashcards'', JArr [])]))
          (ascii ''abc'') (ascii ''easy'') 2) =
     \<lparr>template = ascii ''quiz.html'', entities = [], error = Some quiz_error_message\<rparr> \<and>
   fst (get_flashcards (Some (\<lambda>req. Inr (ChatResponse [Some (ascii ''{questions: []}'')])))
          (\<lambda>s. Inr (JObj [(ascii ''questions'', JArr []), (ascii ''flashcards'', JArr [])]))
          (ascii ''abc'') 4) =
     \<lparr>template = ascii ''flashcards.html'', entities = [],
      error = Some flashcards_error_message\<rparr>"
    using error_iff_entities_empty
      [where client = "Some (\<lambda>req. Inr (ChatResponse [Some (ascii ''{questions: []}'')]))"
         and loads = "\<lambda>s. Inr (JObj [(ascii ''questions'', JArr []), (ascii ''flashcards'', JArr [])])"
         and a = "ascii ''abc''" and d = "ascii ''easy''" and n = "2" and m = "4"]
    by (simp add: ascii_def)
  have e: "entities (fst (get_flashcards (Some (\<lambda>req. Inr (ChatResponse [Some (ascii ''{flashcards: [1]}'')])))
          (\<lambda>s. Inr (JObj [(ascii ''flashcards'', JArr [JInt 1])]))
          (ascii ''abc'') 4)) = [JInt 1]"
    by (simp add: flashcards_view flashcards_of_reply parse_response_object)
  have b: "error (fst (get_flashcards (Some (\<lambda>req. Inr (ChatResponse [Some (ascii ''{flashcards: [1]}'')])))
          (\<lambda>s. Inr (JObj [(ascii ''flashcards'', JArr [JInt 1])]))
          (ascii ''abc'') 4)) = None"
    using e error_iff_entities_empty
      [where client = "Some (\<lambda>req. Inr (ChatResponse [Some (ascii ''{flashcards: [1]}'')]))"
         and loads = "\<lambda>s. Inr (JObj [(ascii ''flashcards'', JArr [JInt 1])])"
         and a = "ascii ''abc''" and d = "ascii ''easy''" and n = "2" and m = "4"]
    by simp
  from a e b show ?thesis by blast
qed




section \<open>Properties of the upload handler and of the unconfigured client\<close>

lemma init_client_absent:
  "api_key = None \<or> api_key = Some [] \<Longrightarrow> init_client api_key service = None"
  by (auto simp: init_client_def)

lemma upload_try_not_writable:
  "\<not> writable (temp_path name) \<Longrightarrow>
   upload_try client writable extract_text files name content =
     (Inl (PyErr OSError (ascii ''cannot open file'')), files, [])"
  by (simp add: upload_try_def)

lemma upload_try_read_fails:
  "writable (temp_path name) \<Longrightarrow> content = Inl e \<Longrightarrow>
   upload_try client writable extract_text files name content =
     (Inl e, files(temp_path name \<mapsto> []), [])"
  by (simp add: upload_try_def)

lemma upload_try_extract_fails:
  "writable (temp_path name) \<Longrightarrow> content = Inr bytes \<Longrightarrow> extract_text bytes = Inl e \<Longrightarrow>
   upload_try client writable extract_text files name content =
     (Inl e, files(temp_path name \<mapsto> bytes), [])"
  by (simp add: upload_try_def)

lemma upload_try_success:
  "writable (temp_path name) \<Longrightarrow> content = Inr bytes \<Longrightarrow> extract_text bytes = Inr pages \<Longrightarrow>
   upload_try client writable extract_text files name content =
     (Inr (ResultsPage
        \<lparr>filename = name,
         summary = fst (summarize client (abstract_locator (concat pages))),
         raw_abstract = abstract_locator (concat pages)\<rparr>),
      files(temp_path name \<mapsto> bytes),
      snd (summarize client (abstract_locator (concat pages))))"
  by (simp add: upload_try_def case_prod_beta Let_def)

lemma upload_paper_alt:
  "upload_paper client writable extract_text files name content =
     (case fst (upload_try client writable extract_text files name content) of
        Inl e \<Rightarrow> RedirectHome | Inr response \<Rightarrow> response,
      (fst (snd (upload_try client writable extract_text files name content)))
        (temp_path name := None),
      snd (snd (upload_try client writable extract_text files name content)))"
proof -
  have "(if f p \<noteq> None then f(p := None) else f) = f(p := None)" for f :: fs and p
    by auto
  then show ?thesis
    by (simp add: upload_paper_def case_prod_beta)
qed

lemma summarize_unconfigured: "summarize None a = (Some not_configured_message, [])"
  by (simp add: summarize_def)

lemma upload_paper_unconfigured_calls:
  "snd (snd (upload_paper None writable extract_text files name content)) = []"
proof (cases "writable (temp_path name)")
  case False
  then show ?thesis by (simp add: upload_paper_alt upload_try_not_writable)
next
  case w: True
  show ?thesis
  proof (cases content)
    case (Inl e)
    with w show ?thesis by (simp add: upload_paper_alt upload_try_read_fails)
  next
    case (Inr bytes)
    with w show ?thesis
      by (cases "extract_text bytes")
        (simp_all add: upload_paper_alt upload_try_extract_fails upload_try_success
          summarize_unconfigured)
  qed
qed

lemma upload_paper_unconfigured_summary:
  assumes "fst (upload_paper None writable extract_text files name content) = ResultsPage v"
  shows "summary v = Some not_configured_message"
proof (cases "writable (temp_path name)")
  case False
  with assms show ?thesis by (simp add: upload_paper_alt upload_try_not_writable)
next
  case w: True
  show ?thesis
  proof (cases content)
    case (Inl e)
    with w assms show ?thesis by (simp add: upload_paper_alt upload_try_read_fails)
  next
    case (Inr bytes)
    with w assms show ?thesis
      by (cases "extract_text bytes")
        (auto simp: upload_paper_alt upload_try_extract_fails upload_try_success
          summarize_unconfigured)
  qed
qed

text \<open>
  C6. When the key is unset or empty the client is \<open>None\<close>, and then no request is sent
  to the remote service by any operation: the summary is the fixed placeholder
  \<open>Mistral API client not configured. Please set MISTRAL_API_KEY in .env\<close>, both generators
  return the empty list, both list views show their error message, and an upload whose file is
  written and read renders the results page with the placeholder as summary.
\<close>

theorem unconfigured_client_short_circuits:
  assumes "api_key = None \<or> api_key = Some []"
  shows
    "summarize (init_client api_key service) abstract = (Some not_configured_message, []) \<and>
     generate_quiz_from_text (init_client api_key service) loads t n d = ([], []) \<and>
     generate_flashcards_from_text (init_client api_key service) loads t m = ([], []) \<and>
     get_quiz_questions (init_client api_key service) loads t d n =
       (\<lparr>template = ascii ''quiz.html'', entities = [], error = Some quiz_error_message\<rparr>,
        []) \<and>
     get_flashcards (init_client api_key service) loads t m =
       (\<lparr>template = ascii ''flashcards.html'', entities = [],
         error = Some flashcards_error_message\<rparr>, []) \<and>
     snd (snd (upload_paper (init_client api_key service) writable extract_text files name content))
       = [] \<and>
     (\<forall>v. fst (upload_paper (init_client api_key service) writable extract_text files name content)
            = ResultsPage v \<longrightarrow> summary v = Some not_configured_message) \<and>
     (\<forall>bytes pages. writable (temp_path name) \<longrightarrow> content = Inr bytes \<longrightarrow>
        extract_text bytes = Inr pages \<longrightarrow>
        fst (upload_paper (init_client api_key service) writable extract_text files name content) =
          ResultsPage \<lparr>filename = name, summary = Some not_configured_message,
                       raw_abstract = abstract_locator (concat pages)\<rparr>)"
proof -
  have c: "init_client api_key service = None"
    using assms by (rule init_client_absent)
  have g: "generate_quiz_from_text None loads t n d = ([], [])"
    "generate_flashcards_from_text None loads t m = ([], [])"
    by (simp_all add: generate_quiz_from_text_def generate_flashcards_from_text_def)
  have v: "get_quiz_questions None loads t d n =
       (\<lparr>template = ascii ''quiz.html'', entities = [], error = Some quiz_error_message\<rparr>,
        [])"
    "get_flashcards None loads t m =
       (\<lparr>template = ascii ''flashcards.html'', entities = [],
         error = Some flashcards_error_message\<rparr>, [])"
    by (simp_all add: get_quiz_questions_def get_flashcards_def g)
  have u: "\<forall>bytes pages. writable (temp_path name) \<longrightarrow> content = Inr bytes \<longrightarrow>
        extract_text bytes = Inr pages \<longrightarrow>
        fst (upload_paper None writable extract_text files name content) =
          ResultsPage \<lparr>filename = name, summary = Some not_configured_message,
                       raw_abstract = abstract_locator (concat pages)\<rparr>"
    by (simp add: upload_paper_alt upload_try_success summarize_unconfigured)
  show ?thesis
    unfolding c
    using g v u upload_paper_unconfigured_calls [of writable extract_text files name content]
      upload_paper_unconfigured_summary [of writable extract_text files name content]
    by (simp add: summarize_unconfigured)
qed

theorem unconfigured_client_short_circuits_witness:
  "generate_quiz_from_text
     (init_client None (\<lambda>req. Inr (ChatResponse [Some (ascii ''{}'')])))
     (\<lambda>s. Inr (JObj [])) (ascii ''abc'') 3 (ascii ''hard'') = ([], []) \<and>
   generate_flashcards_from_text
     (init_client (Some []) (\<lambda>req. Inr (ChatResponse [Some (ascii ''{}'')])))
     (\<lambda>s. Inr (JObj [])) (ascii ''abc'') 5 = ([], []) \<and>
   upload_paper (init_client None (\<lambda>req. Inr (ChatResponse [Some (ascii ''{}'')])))
     (\<lambda>p. True) (\<lambda>b. Inr [ascii ''Abstract We show X. '', ascii ''Introduction Y''])
     Map.empty (Some (ascii ''p.pdf'')) (Inr [37, 80, 68, 70]) =
     (ResultsPage \<lparr>filename = Some (ascii ''p.pdf''),
                   summary = Some not_configured_message,
                   raw_abstract = ascii ''We show X.''\<rparr>,
      Map.empty, [])"
proof -
  have a: "generate_quiz_from_text
     (init_client None (\<lambda>req. Inr (ChatResponse [Some (ascii ''{}'')])))
     (\<lambda>s. Inr (JObj [])) (ascii ''abc'') 3 (ascii ''hard'') = ([], [])"
    using unconfigured_client_short_circuits
      [where api_key = "None" and service = "\<lambda>req. Inr (ChatResponse [Some (ascii ''{}'')])"
         and loads = "\<lambda>s. Inr (JObj [])" and t = "ascii ''abc''" and n = "3"
         and d = "ascii ''hard''"]
    by simp
  have b: "generate_flashcards_from_text
     (init_client (Some []) (\<lambda>req. Inr (ChatResponse [Some (ascii ''{}'')])))
     (\<lambda>s. Inr (JObj [])) (ascii ''abc'') 5 = ([], [])"
    using unconfigured_client_short_circuits
      [where api_key = "Some []" and service = "\<lambda>req. Inr (ChatResponse [Some (ascii ''{}'')])"
         and loads = "\<lambda>s. Inr (JObj [])" and t = "ascii ''abc''" and m = "5"]
    by simp
  have l: "abstract_locator (concat [ascii ''Abstract We show X. '', ascii ''Introduction Y''])
      = ascii ''We show X.''"
    by (simp add: locator_eval)
  have f: "fst (upload_paper (init_client None (\<lambda>req. Inr (ChatResponse [Some (ascii ''{}'')])))
     (\<lambda>p. True) (\<lambda>b. Inr [ascii ''Abstract We show X. '', ascii ''Introduction Y''])
     Map.empty (Some (ascii ''p.pdf'')) (Inr [37, 80, 68, 70])) =
     ResultsPage \<lparr>filename = Some (ascii ''p.pdf''),
                   summary = Some not_configured_message,
                   raw_abstract = ascii ''We show X.''\<rparr>"
    using l unconfigured_client_short_circuits
      [where api_key = "None" and service = "\<lambda>req. Inr (ChatResponse [Some (ascii ''{}'')])"
         and writable = "\<lambda>p. True"
         and extract_text = "\<lambda>b. Inr [ascii ''Abstract We show X. '', ascii ''Introduction Y'']"
         and files = "Map.empty" and name = "Some (ascii ''p.pdf'')"
         and content = "Inr [37, 80, 68, 70]"]
    by simp
  have c: "snd (snd (upload_paper (init_client None (\<lambda>req. Inr (ChatResponse [Some (ascii ''{}'')])))
     (\<lambda>p. True) (\<lambda>b. Inr [ascii ''Abstract We show X. '', ascii ''Introduction Y''])
     Map.empty (Some (ascii ''p.pdf'')) (Inr [37, 80, 68, 70]))) = []"
    using unconfigured_client_short_circuits
      [where api_key = "None" and service = "\<lambda>req. Inr (ChatResponse [Some (ascii ''{}'')])"
         and writable = "\<lambda>p. True"
         and extract_text = "\<lambda>b. Inr [ascii ''Abstract We show X. '', ascii ''Introduction Y'']"
         and files = "Map.empty" and name = "Some (ascii ''p.pdf'')"
         and content = "Inr [37, 80, 68, 70]"]
    by simp
  have g: "fst (snd (upload_paper (init_client None (\<lambda>req. Inr (ChatResponse [Some (ascii ''{}'')])))
     (\<lambda>p. True) (\<lambda>b. Inr [ascii ''Abstract We show X. '', ascii ''Introduction Y''])
     Map.empty (Some (ascii ''p.pdf'')) (Inr [37, 80, 68, 70]))) = Map.empty"
    by (simp add: upload_paper_alt upload_try_success)
  from a b f c g show ?thesis by (simp add: prod_eq_iff)
qed

lemma upload_try_other_files:
  "p \<noteq> temp_path name \<Longrightarrow>
   fst (snd (upload_try client writable extract_text files name content)) p = files p"
proof (cases "writable (temp_path name)")
  case False
  then show ?thesis by (simp add: upload_try_not_writable)
next
  case w: True
  assume p: "p \<noteq> temp_path name"
  show ?thesis
  proof (cases content)
    case (Inl e)
    with w p show ?thesis by (simp add: upload_try_read_fails)
  next
    case (Inr bytes)
    with w p show ?thesis
      by (cases "extract_text bytes")
        (simp_all add: upload_try_extract_fails upload_try_success)
  qed
qed

lemma upload_paper_redirects:
  "fst (upload_paper client writable extract_text files name content) = RedirectHome \<longleftrightarrow>
     \<not> writable (temp_path name) \<or> (\<exists>e. content = Inl e) \<or>
     (\<exists>bytes e. content = Inr bytes \<and> extract_text bytes = Inl e)"
proof (cases "writable (temp_path name)")
  case False
  then show ?thesis by (simp add: upload_paper_alt upload_try_not_writable)
next
  case w: True
  show ?thesis
  proof (cases content)
    case (Inl e)
    with w show ?thesis by (simp add: upload_paper_alt upload_try_read_fails)
  next
    case (Inr bytes)
    with w show ?thesis
      by (cases "extract_text bytes")
        (simp_all add: upload_paper_alt upload_try_extract_fails upload_try_success)
  qed
qed

text \<open>
  C7. After the upload handler has returned, no file stands at the temporary path, whatever
  the client, the storage, the file name, the uploaded content and the PDF library did, and
  every other file is as it was. The handler redirects exactly when the file cannot be opened
  for writing, the upload cannot be read, or the PDF library fails. In particular, for a file
  that the PDF library rejects, the temporary file had been written when the exception was
  raised, the handler redirects, and the file is gone afterwards; after a successful
  extraction the file had been written too and is removed as well.
\<close>

theorem temp_file_removed_on_every_path:
  "fst (snd (upload_paper client writable extract_text files name content)) (temp_path name)
     = None \<and>
   (\<forall>p. p \<noteq> temp_path name \<longrightarrow>
      fst (snd (upload_paper client writable extract_text files name content)) p = files p) \<and>
   (fst (upload_paper client writable extract_text files name content) = RedirectHome \<longleftrightarrow>
      \<not> writable (temp_path name) \<or> (\<exists>e. content = Inl e) \<or>
      (\<exists>bytes e. content = Inr bytes \<and> extract_text bytes = Inl e)) \<and>
   (\<forall>bytes e. writable (temp_path name) \<longrightarrow> content = Inr bytes \<longrightarrow>
      extract_text bytes = Inl e \<longrightarrow>
      fst (snd (upload_try client writable extract_text files name content)) (temp_path name)
        = Some bytes \<and>
      fst (upload_paper client writable extract_text files name content) = RedirectHome) \<and>
   (\<forall>bytes pages. writable (temp_path name) \<longrightarrow> content = Inr bytes \<longrightarrow>
      extract_text bytes = Inr pages \<longrightarrow>
      fst (snd (upload_try client writable extract_text files name content)) (temp_path name)
        = Some bytes \<and>
      fst (upload_paper client writable extract_text files name content) \<noteq> RedirectHome)"
proof (intro conjI allI impI)
  show "fst (snd (upload_paper client writable extract_text files name content))
      (temp_path name) = None"
    by (simp add: upload_paper_alt)
next
  fix p assume "p \<noteq> temp_path name"
  then show "fst (snd (upload_paper client writable extract_text files name content)) p
      = files p"
    by (simp add: upload_paper_alt upload_try_other_files)
next
  show "fst (upload_paper client writable extract_text files name content) = RedirectHome \<longleftrightarrow>
      \<not> writable (temp_path name) \<or> (\<exists>e. content = Inl e) \<or>
      (\<exists>bytes e. content = Inr bytes \<and> extract_text bytes = Inl e)"
    by (rule upload_paper_redirects)
next
  fix bytes e
  assume h: "writable (temp_path name)" "content = Inr bytes" "extract_text bytes = Inl e"
  then show "fst (snd (upload_try client writable extract_text files name content))
      (temp_path name) = Some bytes"
    by (simp add: upload_try_extract_fails)
  from h show "fst (upload_paper client writable extract_text files name content)
      = RedirectHome"
    by (simp add: upload_paper_alt upload_try_extract_fails)
next
  fix bytes pages
  assume h: "writable (temp_path name)" "content = Inr bytes" "extract_text bytes = Inr pages"
  then show "fst (snd (upload_try client writable extract_text files name content))
      (temp_path name) = Some bytes"
    by (simp add: upload_try_success)
  from h show "fst (upload_paper client writable extract_text files name content)
      \<noteq> RedirectHome"
    by (simp add: upload_paper_alt upload_try_success)
qed

theorem temp_file_removed_on_every_path_witness:
  "fst (snd (upload_try None (\<lambda>p. True)
               (\<lambda>b. Inl (PyErr FileDataError (ascii ''Failed to open file'')))
               [ascii ''keep.txt'' \<mapsto> [1]] (Some (ascii ''notes.txt'')) (Inr [104, 105])))
     (ascii ''temp_notes.txt'') = Some [104, 105] \<and>
   fst (upload_paper None (\<lambda>p. True)
          (\<lambda>b. Inl (PyErr FileDataError (ascii ''Failed to open file'')))
          [ascii ''keep.txt'' \<mapsto> [1]] (Some (ascii ''notes.txt'')) (Inr [104, 105]))
     = RedirectHome \<and>
   fst (snd (upload_paper None (\<lambda>p. True)
               (\<lambda>b. Inl (PyErr FileDataError (ascii ''Failed to open file'')))
               [ascii ''keep.txt'' \<mapsto> [1]] (Some (ascii ''notes.txt'')) (Inr [104, 105])))
     (ascii ''temp_notes.txt'') = None \<and>
   fst (snd (upload_paper None (\<lambda>p. True)
               (\<lambda>b. Inl (PyErr FileDataError (ascii ''Failed to open file'')))
               [ascii ''keep.txt'' \<mapsto> [1]] (Some (ascii ''notes.txt'')) (Inr [104, 105])))
     (ascii ''keep.txt'') = Some [1]"
proof -
  have tp: "temp_path (Some (ascii ''notes.txt'')) = ascii ''temp_notes.txt''"
    by (simp add: temp_path_def ascii_def)
  have ne: "ascii ''keep.txt'' \<noteq> ascii ''temp_notes.txt''"
    by (simp add: ascii_def)
  show ?thesis
    using ne temp_file_removed_on_every_path
      [where client = "None" and writable = "\<lambda>p. True"
         and extract_text = "\<lambda>b. Inl (PyErr FileDataError (ascii ''Failed to open file''))"
         and files = "[ascii ''keep.txt'' \<mapsto> [1]]" and name = "Some (ascii ''notes.txt'')"
         and content = "Inr [104, 105]"]
    unfolding tp by simp
qed

end
